theory Spec2Isabelle
  imports Main
begin

section \<open>Package ptr\<close>

text \<open>
  \<^verbatim>\<open>func From[T comparable](t T) *T\<close> compares its argument with \<^verbatim>\<open>*new(T)\<close>, the zero
  value of the type parameter. What the type parameter contributes is passed to the model
  explicitly: its comparison \<^verbatim>\<open>==\<close> and its zero value. A pointer result is an option, \<open>None\<close>
  for nil and \<open>Some v\<close> for a pointer to a fresh copy holding \<open>v\<close>.
\<close>

definition From :: "('t \<Rightarrow> 't \<Rightarrow> bool) \<Rightarrow> 't \<Rightarrow> 't \<Rightarrow> 't option" where
  "From eq_T zero_T t = (if eq_T t zero_T then None else Some t)"

section \<open>Package grpc: the server configuration\<close>

text \<open>
  Only the presence of a listener matters to \<^verbatim>\<open>Validate\<close>, so the interface value
  \<^verbatim>\<open>net.Listener\<close> is an option over an opaque identity; the field \<^verbatim>\<open>LogOpts\<close>, which
  \<^verbatim>\<open>Validate\<close> does not read, is left out. The receiver is a pointer and may be nil. The
  result is the error message, \<open>None\<close> for a nil error.
\<close>

record ServerConfig =
  Listener :: "nat option"
  Host :: string
  Port :: int

definition Validate :: "ServerConfig option \<Rightarrow> string option" where
  "Validate c =
     (case c of
        None \<Rightarrow> Some ''config is nil''
      | Some cfg \<Rightarrow>
          if Listener cfg \<noteq> None then
            (if Host cfg \<noteq> '''' then Some ''listener and host cannot both be set''
             else if Port cfg \<noteq> 0 then Some ''listener and port cannot both be set''
             else None)
          else if Host cfg = '''' then Some ''no listener provided and host is empty''
          else if Port cfg < 0 then Some ''no listener provided and port is negative''
          else None)"

section \<open>Package http: composing middlewares\<close>

text \<open>
  \<^verbatim>\<open>MiddlewareChain\<close> walks the slice from its last index down to 0, wrapping the handler
  built so far. The loop variable is a signed integer, as in the source.
\<close>

function chain_loop :: "('h \<Rightarrow> 'h) list \<Rightarrow> int \<Rightarrow> 'h \<Rightarrow> 'h" where
  "chain_loop mws i nxt =
     (if 0 \<le> i then chain_loop mws (i - 1) ((mws ! nat i) nxt) else nxt)"
  by pat_completeness auto
termination
  by (relation "measure (\<lambda>(mws, i, nxt). nat (i + 1))") auto

declare chain_loop.simps [simp del]

definition MiddlewareChain :: "('h \<Rightarrow> 'h) list \<Rightarrow> 'h \<Rightarrow> 'h" where
  "MiddlewareChain mws = (\<lambda>nxt. chain_loop mws (int (length mws) - 1) nxt)"

text \<open>The nesting the specification describes: the first listed decorator is outermost.\<close>

fun nested :: "('h \<Rightarrow> 'h) list \<Rightarrow> 'h \<Rightarrow> 'h" where
  "nested [] h = h"
| "nested (m # ms) h = m (nested ms h)"

text \<open>
  To observe the order of effects, a handler is run on a trace of events; the decorator
  \<open>around a\<close> records \<open>Enter a\<close> before it delegates and \<open>Leave a\<close> after the delegate is
  done, and the innermost handler \<open>core\<close> records \<open>Served\<close>.
\<close>

datatype 'a event = Enter 'a | Served | Leave 'a

definition around :: "'a \<Rightarrow> ('a event list \<Rightarrow> 'a event list) \<Rightarrow> 'a event list \<Rightarrow> 'a event list" where
  "around a nxt = (\<lambda>tr. nxt (tr @ [Enter a]) @ [Leave a])"

definition core :: "'a event list \<Rightarrow> 'a event list" where
  "core = (\<lambda>tr. tr @ [Served])"

section \<open>Package http: response writers\<close>

subsection \<open>Strings and headers\<close>

text \<open>
  Byte strings and Go strings are \<open>string\<close>. \<^verbatim>\<open>strings.HasPrefix\<close> and \<^verbatim>\<open>strings.Contains\<close> are the
  library's; \<^verbatim>\<open>strings.ToLower\<close> is modelled on ASCII letters; \<^verbatim>\<open>strconv.Itoa\<close> prints a decimal.
\<close>

fun HasPrefix :: "string \<Rightarrow> string \<Rightarrow> bool" where
  "HasPrefix s [] = True"
| "HasPrefix [] (p # ps) = False"
| "HasPrefix (c # cs) (p # ps) = (c = p \<and> HasPrefix cs ps)"

fun Contains :: "string \<Rightarrow> string \<Rightarrow> bool" where
  "Contains [] sub = (sub = [])"
| "Contains (c # cs) sub = (HasPrefix (c # cs) sub \<or> Contains cs sub)"

definition lower_char :: "char \<Rightarrow> char" where
  "lower_char c =
     (let n = of_char c :: nat in if 65 \<le> n \<and> n \<le> 90 then char_of (n + 32) else c)"

definition ToLower :: "string \<Rightarrow> string" where
  "ToLower s = map lower_char s"

fun digits :: "nat \<Rightarrow> string" where
  "digits n = (if n < 10 then [char_of (48 + n)] else digits (n div 10) @ [char_of (48 + n mod 10)])"

declare digits.simps [simp del]

definition Itoa :: "int \<Rightarrow> string" where
  "Itoa i = (if i < 0 then CHR ''-'' # digits (nat (- i)) else digits (nat i))"

text \<open>
  \<^verbatim>\<open>http.Header\<close> is a map from a header name to its values. The library canonicalises the
  spelling of names on every access; the model uses one spelling per header, the one the
  source writes.
\<close>

type_synonym header = "string \<Rightarrow> string list option"

definition Header_Get :: "header \<Rightarrow> string \<Rightarrow> string" where
  "Header_Get h k = (case h k of Some (v # vs) \<Rightarrow> v | _ \<Rightarrow> '''')"

definition Header_Set :: "string \<Rightarrow> string \<Rightarrow> header \<Rightarrow> header" where
  "Header_Set k v h = h(k \<mapsto> [v])"

definition Header_Add :: "string \<Rightarrow> string \<Rightarrow> header \<Rightarrow> header" where
  "Header_Add k v h = h(k \<mapsto> (case h k of None \<Rightarrow> [v] | Some vs \<Rightarrow> vs @ [v]))"

subsection \<open>The state a request runs in\<close>

text \<open>
  The server's own response writer lies outside the package. It is modelled as a
  connection that keeps its header map, the status codes it was given, the bytes it took
  and the number of flushes; how many bytes one \<^verbatim>\<open>Write\<close> takes, and whether it fails, is a
  parameter (\<open>srv_Write\<close>).
\<close>

record conn =
  c_header :: header
  c_codes :: "int list"
  c_body :: string
  c_flushes :: nat

text \<open>
  \<^verbatim>\<open>ResponseWriter\<close>: the fields \<^verbatim>\<open>writer\<close> and \<^verbatim>\<open>flusher\<close> are set once, by
  \<^verbatim>\<open>WrapResponseWriter\<close>, to the same value and never assigned again. A pointer to a
  \<^verbatim>\<open>ResponseWriter\<close> is therefore its address together with that value (\<open>Wrapped a w\<close>), and
  the heap holds the fields that change. A \<^verbatim>\<open>gzipResponseWriter\<close> is the writer it embeds and
  the address of its compressor. \<open>Server f\<close> is the server's writer; \<open>f\<close> tells whether its
  dynamic type has a \<^verbatim>\<open>Flush\<close> method.
\<close>

datatype writer = Server bool | Wrapped nat writer | Gzipped writer nat

record ResponseWriter =
  status :: int
  written :: int
  user :: string

text \<open>
  \<^verbatim>\<open>gzip.Writer\<close> (compress/gzip) as far as the package uses it. Within the package a
  compressor is pointed either at the writer that its \<^verbatim>\<open>gzipResponseWriter\<close> embeds or at
  \<^verbatim>\<open>io.Discard\<close>, so its target is the flag \<open>gz_discard\<close>. It writes the gzip header with the
  first \<^verbatim>\<open>Write\<close>, keeps the data it is given, and writes the compressed data and the
  footer on \<^verbatim>\<open>Close\<close>.
\<close>

record gzip_Writer =
  gz_discard :: bool
  gz_wroteHeader :: bool
  gz_closed :: bool
  gz_err :: bool
  gz_pending :: string

datatype json = JNull | JBool bool | JNumber int | JString string
  | JArray "json list" | JObject "(string \<times> json) list"

datatype Level = LevelDebug | LevelInfo | LevelWarn | LevelError

datatype attr = AString string | AInt int

record log_record =
  level :: Level
  msg :: string
  attrs :: "(string \<times> attr) list"

text \<open>What the standard library and the server contribute, as parameters.\<close>

record library =
  srv_Write :: "conn \<Rightarrow> string \<Rightarrow> int \<times> bool"
  json_Marshal :: "json \<Rightarrow> string"
  fmt_q :: "string \<Rightarrow> string"
  gzip_header :: string
  gzip_finish :: "string \<Rightarrow> string"
  error_headers :: "header \<Rightarrow> header"

record world =
  lib :: library
  srv :: conn
  heap :: "nat \<Rightarrow> ResponseWriter"
  fresh :: nat
  gzs :: "nat \<Rightarrow> gzip_Writer"
  gz_fresh :: nat
  gzPool :: "nat list"
  logged :: "log_record list"

text \<open>Go's \<^verbatim>\<open>int\<close> is taken to be 64 bits wide; \<open>int64\<close> is the wrap-around of its arithmetic.\<close>

definition int64 :: "int \<Rightarrow> int" where
  "int64 x = (x + 2 ^ 63) mod 2 ^ 64 - 2 ^ 63"

subsection \<open>The methods of the writers\<close>

text \<open>
  \<^verbatim>\<open>Header()\<close> of every writer forwards to the writer below, down to the server's map. The
  map is shared, so a \<^verbatim>\<open>Set\<close> or \<^verbatim>\<open>Add\<close> on the result changes the server's header.
\<close>

fun Header :: "writer \<Rightarrow> world \<Rightarrow> header" where
  "Header (Server f) s = c_header (srv s)"
| "Header (Wrapped a w) s = Header w s"
| "Header (Gzipped w g) s = Header w s"

fun on_Header :: "writer \<Rightarrow> (header \<Rightarrow> header) \<Rightarrow> world \<Rightarrow> world" where
  "on_Header (Server f) upd s = s\<lparr>srv := (srv s)\<lparr>c_header := upd (c_header (srv s))\<rparr>\<rparr>"
| "on_Header (Wrapped a w) upd s = on_Header w upd s"
| "on_Header (Gzipped w g) upd s = on_Header w upd s"

fun WriteHeader :: "writer \<Rightarrow> int \<Rightarrow> world \<Rightarrow> world" where
  "WriteHeader (Server f) statusCode s =
     s\<lparr>srv := (srv s)\<lparr>c_codes := c_codes (srv s) @ [statusCode]\<rparr>\<rparr>"
| "WriteHeader (Wrapped a w) statusCode s =
     (let s1 = WriteHeader w statusCode s
      in s1\<lparr>heap := (heap s1)(a := (heap s1 a)\<lparr>status := statusCode\<rparr>)\<rparr>)"
| "WriteHeader (Gzipped w g) statusCode s = WriteHeader w statusCode s"

definition gz_upd :: "nat \<Rightarrow> (gzip_Writer \<Rightarrow> gzip_Writer) \<Rightarrow> world \<Rightarrow> world" where
  "gz_upd g f s = s\<lparr>gzs := (gzs s)(g := f (gzs s g))\<rparr>"

text \<open>
  \<^verbatim>\<open>Write\<close> returns the count and whether the error is non-nil. The wrapper adds the count
  the writer below reports. The compressed writer hands the data to its compressor, which
  first writes the gzip header to its target if it has not yet done so, fails with count 0
  when it is in error, and otherwise takes all of the data.
\<close>

fun Write :: "writer \<Rightarrow> string \<Rightarrow> world \<Rightarrow> (int \<times> bool) \<times> world" where
  "Write (Server f) p s =
     (case srv_Write (lib s) (srv s) p of
        (n, err) \<Rightarrow> ((n, err), s\<lparr>srv := (srv s)\<lparr>c_body := c_body (srv s) @ take (nat n) p\<rparr>\<rparr>))"
| "Write (Wrapped a w) p s =
     (case Write w p s of
        ((n, err), s1) \<Rightarrow>
          ((n, err), s1\<lparr>heap := (heap s1)(a := (heap s1 a)\<lparr>written := int64 (written (heap s1 a) + n)\<rparr>)\<rparr>))"
| "Write (Gzipped w g) p s =
     (if gz_err (gzs s g) then ((0, True), s)
      else if gz_wroteHeader (gzs s g) then
        ((int (length p), False), gz_upd g (\<lambda>z. z\<lparr>gz_pending := gz_pending z @ p\<rparr>) s)
      else
        (case (if gz_discard (gzs s g) then ((int (length (gzip_header (lib s))), False), s)
               else Write w (gzip_header (lib s)) s) of
           ((n, err), s1) \<Rightarrow>
             if err then ((0, True), gz_upd g (\<lambda>z. z\<lparr>gz_wroteHeader := True, gz_err := True\<rparr>) s1)
             else ((int (length p), False),
                   gz_upd g (\<lambda>z. z\<lparr>gz_wroteHeader := True, gz_pending := gz_pending z @ p\<rparr>) s1)))"

text \<open>
  \<^verbatim>\<open>Flush\<close>: the wrapper calls its flusher; the compressed writer flushes the embedded
  writer when that one can flush, and does not flush the compressor.
\<close>

fun implements_Flusher :: "writer \<Rightarrow> bool" where
  "implements_Flusher (Server f) = f"
| "implements_Flusher (Wrapped a w) = True"
| "implements_Flusher (Gzipped w g) = True"

fun Flush :: "writer \<Rightarrow> world \<Rightarrow> world" where
  "Flush (Server f) s = s\<lparr>srv := (srv s)\<lparr>c_flushes := Suc (c_flushes (srv s))\<rparr>\<rparr>"
| "Flush (Wrapped a w) s = Flush w s"
| "Flush (Gzipped w g) s = (if implements_Flusher w then Flush w s else s)"

text \<open>
  A \<^verbatim>\<open>*ResponseWriter\<close> is the pair of its address and the writer below it;
  \<open>as_writer\<close> is the same pointer seen as an \<^verbatim>\<open>http.ResponseWriter\<close>.
\<close>

type_synonym ResponseWriter_ptr = "nat \<times> writer"

definition as_writer :: "ResponseWriter_ptr \<Rightarrow> writer" where
  "as_writer p = Wrapped (fst p) (snd p)"

text \<open>Whether the type assertion \<^verbatim>\<open>rw.(*ResponseWriter)\<close> succeeds.\<close>

fun is_ResponseWriter :: "writer \<Rightarrow> bool" where
  "is_ResponseWriter (Wrapped a w) = True"
| "is_ResponseWriter rw = False"

fun WrapResponseWriter :: "writer \<Rightarrow> world \<Rightarrow> (string + ResponseWriter_ptr) \<times> world" where
  "WrapResponseWriter (Wrapped a w) s = (Inr (a, w), s)"
| "WrapResponseWriter rw s =
     (if \<not> implements_Flusher rw
      then (Inl ''ResponseWriter does not implement http.Flusher'', s)
      else (Inr (fresh s, rw),
            s\<lparr>heap := (heap s)(fresh s := \<lparr>status = 200, written = 0, user = ''''\<rparr>),
              fresh := Suc (fresh s)\<rparr>))"

text \<open>
  The calls a handler can make on the writer it is given, and their effect in order; the
  results of the \<^verbatim>\<open>Write\<close> calls are collected.
\<close>

datatype call = CallSet string string | CallWriteHeader int | CallWrite string | CallFlush

fun calls :: "writer \<Rightarrow> call list \<Rightarrow> world \<Rightarrow> (int \<times> bool) list \<times> world" where
  "calls rw [] s = ([], s)"
| "calls rw (CallSet k v # cs) s = calls rw cs (on_Header rw (Header_Set k v) s)"
| "calls rw (CallWriteHeader c # cs) s = calls rw cs (WriteHeader rw c s)"
| "calls rw (CallWrite p # cs) s =
     (case Write rw p s of (r, s1) \<Rightarrow> (case calls rw cs s1 of (rs, s2) \<Rightarrow> (r # rs, s2)))"
| "calls rw (CallFlush # cs) s = calls rw cs (Flush rw s)"

fun codes :: "call list \<Rightarrow> int list" where
  "codes [] = []"
| "codes (CallWriteHeader c # cs) = c # codes cs"
| "codes (x # cs) = codes cs"

text \<open>
  A writer that can exist in a state: the wrappers in it were allocated (their addresses
  lie below \<open>fresh\<close>), each after the writer it wraps.
\<close>

fun allocated :: "nat \<Rightarrow> writer \<Rightarrow> bool" where
  "allocated b (Server f) = True"
| "allocated b (Wrapped a w) = (a < b \<and> allocated a w)"
| "allocated b (Gzipped w g) = allocated b w"

subsection \<open>Requests, handlers and middlewares\<close>

text \<open>
  Of a request the package reads the method, the path, the headers and the request id
  that \<^verbatim>\<open>MiddlewareRequestID\<close> stores in its context. A handler changes the state and either
  returns or panics; a middleware maps a handler to a handler.
\<close>

record request =
  r_method :: string
  r_path :: string
  r_header :: header
  r_request_id :: "string option"

datatype outcome = Returned | Panicked

type_synonym Handler = "writer \<Rightarrow> request \<Rightarrow> world \<Rightarrow> outcome \<times> world"

type_synonym Middleware = "Handler \<Rightarrow> Handler"

text \<open>
  \<^verbatim>\<open>http.Error\<close> (net/http) adjusts the headers for a plain-text error, sends the status code
  and prints the message followed by a newline.
\<close>

definition http_Error :: "writer \<Rightarrow> string \<Rightarrow> int \<Rightarrow> world \<Rightarrow> world" where
  "http_Error w err code s =
     (let s1 = on_Header w (error_headers (lib s)) s;
          s2 = WriteHeader w code s1
      in snd (Write w (err @ [CHR 0x0A]) s2))"

subsection \<open>The response envelope and Encode\<close>

record ErrResponse =
  Message :: string

record 't Response =
  Data :: 't
  Error :: "ErrResponse option"

text \<open>
  \<^verbatim>\<open>Encode\<close> is generic in the type \<open>T\<close> of the value. What it needs of \<open>T\<close> is passed as a
  record: the zero value of \<open>T\<close> (a field the composite literal leaves out), the case of the
  type switch that a value falls into, whether \<^verbatim>\<open>omitempty\<close> counts a value as empty, and
  the JSON of a value (\<open>None\<close> when encoding/json cannot marshal it). In the second case of
  the switch the string is what the value's \<^verbatim>\<open>Error()\<close> method returns.
\<close>

datatype dynamic = ErrResponsePtr "ErrResponse option" | ErrorValue string | Other

record 't gotype =
  zero_value :: 't
  dynamic_of :: "'t \<Rightarrow> dynamic"
  is_empty :: "'t \<Rightarrow> bool"
  to_json :: "'t \<Rightarrow> json option"

definition Encode_resp :: "'t gotype \<Rightarrow> 't \<Rightarrow> 't Response" where
  "Encode_resp T v =
     (case dynamic_of T v of
        ErrResponsePtr val \<Rightarrow> \<lparr>Data = zero_value T, Error = val\<rparr>
      | ErrorValue m \<Rightarrow> \<lparr>Data = zero_value T, Error = Some \<lparr>Message = m\<rparr>\<rparr>
      | Other \<Rightarrow> \<lparr>Data = v, Error = None\<rparr>)"

text \<open>
  The JSON of the two structs, as their field tags say: \<^verbatim>\<open>json:"message"\<close> for the message,
  \<^verbatim>\<open>json:"data,omitempty"\<close> and \<^verbatim>\<open>json:"error,omitempty"\<close> for the envelope, so that an empty
  data value and a nil error pointer are left out of the object.
\<close>

definition ErrResponse_json :: "ErrResponse \<Rightarrow> json" where
  "ErrResponse_json e = JObject [(''message'', JString (Message e))]"

definition Response_json :: "'t gotype \<Rightarrow> 't Response \<Rightarrow> json option" where
  "Response_json T r =
     (case (if is_empty T (Data r) then Some []
            else (case to_json T (Data r) of None \<Rightarrow> None | Some j \<Rightarrow> Some [(''data'', j)])) of
        None \<Rightarrow> None
      | Some d \<Rightarrow>
          Some (JObject (d @ (case Error r of
                                None \<Rightarrow> []
                              | Some e \<Rightarrow> [(''error'', ErrResponse_json e)]))))"

text \<open>
  The record that \<^verbatim>\<open>slog.Error\<close> writes when encoding fails; its attributes are left out.
\<close>

definition log_encode_failure :: "world \<Rightarrow> world" where
  "log_encode_failure s =
     s\<lparr>logged := logged s @ [\<lparr>level = LevelError, msg = ''failed to encode response'', attrs = []\<rparr>]\<rparr>"

definition Encode :: "'t gotype \<Rightarrow> writer \<Rightarrow> int \<Rightarrow> 't \<Rightarrow> world \<Rightarrow> world" where
  "Encode T rw st v s =
     (let s1 = on_Header rw (Header_Set ''Content-Type'' ''application/json'') s;
          s2 = WriteHeader rw st s1
      in case Response_json T (Encode_resp T v) of
           None \<Rightarrow> log_encode_failure s2
         | Some j \<Rightarrow>
             (case Write rw (json_Marshal (lib s2) j @ [CHR 0x0A]) s2 of
                ((n, err), s3) \<Rightarrow> if err then log_encode_failure s3 else s3))"

text \<open>The type \<^verbatim>\<open>*ErrResponse\<close>, at which \<^verbatim>\<open>EncodeErr\<close> calls \<^verbatim>\<open>Encode\<close>.\<close>

definition ErrResponse_ptr :: "ErrResponse option gotype" where
  "ErrResponse_ptr =
     \<lparr>zero_value = None, dynamic_of = ErrResponsePtr, is_empty = (\<lambda>p. p = None),
      to_json = (\<lambda>p. Some (case p of None \<Rightarrow> JNull | Some e \<Rightarrow> ErrResponse_json e))\<rparr>"

definition EncodeErr :: "writer \<Rightarrow> int \<Rightarrow> string \<Rightarrow> world \<Rightarrow> world" where
  "EncodeErr rw st errMsg s = Encode ErrResponse_ptr rw st (Some \<lparr>Message = errMsg\<rparr>) s"

subsection \<open>Access logging\<close>

definition logLevel :: "int \<Rightarrow> Level" where
  "logLevel st =
     (if 400 \<le> st \<and> st < 500 then LevelWarn
      else if 500 \<le> st then LevelError
      else LevelInfo)"

text \<open>
  The record that \<^verbatim>\<open>MiddlewareLogging\<close> hands to the logger; \<open>logged\<close> lists the records in
  the order of the \<^verbatim>\<open>Log\<close> calls, before the logger's handler filters them by its level.
  The attribute \<^verbatim>\<open>time\<close>, the elapsed wall-clock time, is left out.
\<close>

definition served :: "request \<Rightarrow> ResponseWriter \<Rightarrow> log_record" where
  "served req w =
     \<lparr>level = logLevel (status w), msg = ''Served'',
      attrs = (case r_request_id req of None \<Rightarrow> [] | Some reqID \<Rightarrow> [(''request_id'', AString reqID)])
        @ [(''method'', AString (r_method req)), (''path'', AString (r_path req)),
           (''status'', AInt (status w)), (''size'', AInt (written w)),
           (''user'', AString (user w))]\<rparr>"

definition MiddlewareLogging :: Middleware where
  "MiddlewareLogging nxt = (\<lambda>rw req s.
     case WrapResponseWriter rw s of
       (Inl err, s1) \<Rightarrow> (Returned, http_Error rw err 500 s1)
     | (Inr wrapped, s1) \<Rightarrow>
         (case nxt (as_writer wrapped) req s1 of
            (Panicked, s2) \<Rightarrow> (Panicked, s2)
          | (Returned, s2) \<Rightarrow>
              (Returned, s2\<lparr>logged := logged s2 @ [served req (heap s2 (fst wrapped))]\<rparr>)))"

subsection \<open>Authentication by a static API key\<close>

definition ApiKeyHeader :: string where
  "ApiKeyHeader = ''X-API-Key''"

text \<open>
  The loop that fills the lookup map. \<^verbatim>\<open>users[i]\<close> panics when \<open>users\<close> is shorter than
  \<open>keys\<close>; the result is then \<open>None\<close>.
\<close>

function lookup_loop ::
  "string list \<Rightarrow> string list \<Rightarrow> nat \<Rightarrow> (string \<Rightarrow> string option) \<Rightarrow> (string \<Rightarrow> string option) option" where
  "lookup_loop keys users i lookup =
     (if i < length keys then
        (if i < length users
         then lookup_loop keys users (Suc i) (lookup(keys ! i \<mapsto> users ! i))
         else None)
      else Some lookup)"
  by pat_completeness auto
termination
  by (relation "measure (\<lambda>(keys, users, i, lookup). length keys - i)") auto

declare lookup_loop.simps [simp del]

definition authenticate :: "(string \<Rightarrow> string option) \<Rightarrow> Middleware" where
  "authenticate lookup nxt = (\<lambda>rw req s.
     let key = Header_Get (r_header req) ApiKeyHeader in
     if key = '''' then
       (Returned, EncodeErr rw 401 (''please set the '' @ ApiKeyHeader @ '' header'') s)
     else
       (case lookup key of
          None \<Rightarrow> (Returned, EncodeErr rw 401 (''unrecognized API key '' @ fmt_q (lib s) key) s)
        | Some usr \<Rightarrow>
            (case WrapResponseWriter rw s of
               (Inl err, s1) \<Rightarrow> (Returned, http_Error rw err 500 s1)
             | (Inr wrapped, s1) \<Rightarrow>
                 nxt (as_writer wrapped) req
                   (s1\<lparr>heap := (heap s1)(fst wrapped := (heap s1 (fst wrapped))\<lparr>user := usr\<rparr>)\<rparr>))))"

definition MiddlewareAuthentication :: "string list \<Rightarrow> string list \<Rightarrow> Middleware option" where
  "MiddlewareAuthentication keys users =
     (case lookup_loop keys users 0 Map.empty of
        None \<Rightarrow> None
      | Some lookup \<Rightarrow> Some (authenticate lookup))"

subsection \<open>Compression\<close>

text \<open>
  The pool hands out a compressor that was put back, or a new one, which
  \<^verbatim>\<open>gzip.NewWriterLevel(io.Discard, 4)\<close> points at \<^verbatim>\<open>io.Discard\<close>. \<^verbatim>\<open>Reset\<close> clears the compressor
  and sets its target; \<^verbatim>\<open>Close\<close> writes the header if it is still due, then the compressed
  data and the footer, to the target, once.
\<close>

definition new_gzip_Writer :: "bool \<Rightarrow> gzip_Writer" where
  "new_gzip_Writer discard =
     \<lparr>gz_discard = discard, gz_wroteHeader = False, gz_closed = False, gz_err = False,
      gz_pending = ''''\<rparr>"

definition gzPool_Get :: "world \<Rightarrow> nat \<times> world" where
  "gzPool_Get s =
     (case gzPool s of
        g # rest \<Rightarrow> (g, s\<lparr>gzPool := rest\<rparr>)
      | [] \<Rightarrow> (gz_fresh s,
               s\<lparr>gzs := (gzs s)(gz_fresh s := new_gzip_Writer True), gz_fresh := Suc (gz_fresh s)\<rparr>))"

definition gzPool_Put :: "nat \<Rightarrow> world \<Rightarrow> world" where
  "gzPool_Put g s = s\<lparr>gzPool := g # gzPool s\<rparr>"

definition gzip_Reset :: "bool \<Rightarrow> nat \<Rightarrow> world \<Rightarrow> world" where
  "gzip_Reset discard g s = gz_upd g (\<lambda>z. new_gzip_Writer discard) s"

definition target_Write :: "writer \<Rightarrow> nat \<Rightarrow> string \<Rightarrow> world \<Rightarrow> (int \<times> bool) \<times> world" where
  "target_Write w g p s =
     (if gz_discard (gzs s g) then ((int (length p), False), s) else Write w p s)"

definition gzip_Close :: "writer \<Rightarrow> nat \<Rightarrow> world \<Rightarrow> world" where
  "gzip_Close w g s =
     (if gz_err (gzs s g) \<or> gz_closed (gzs s g) then s
      else
        (case (if gz_wroteHeader (gzs s g) then ((0, False), s)
               else target_Write w g (gzip_header (lib s)) s) of
           ((n, err), s1) \<Rightarrow>
             if err
             then gz_upd g (\<lambda>z. z\<lparr>gz_closed := True, gz_wroteHeader := True, gz_err := True\<rparr>) s1
             else
               (case target_Write w g (gzip_finish (lib s1) (gz_pending (gzs s1 g))) s1 of
                  ((m, err2), s2) \<Rightarrow>
                    gz_upd g (\<lambda>z. z\<lparr>gz_closed := True, gz_wroteHeader := True, gz_err := err2\<rparr>) s2)))"

text \<open>The deferred function of \<^verbatim>\<open>MiddlewareGZip\<close> that looks at the byte count.\<close>

definition gzip_deferred :: "ResponseWriter_ptr \<Rightarrow> nat \<Rightarrow> world \<Rightarrow> world" where
  "gzip_deferred wrapped gzw s =
     (let s1 = (if written (heap s (fst wrapped)) < 0 then gzip_Reset True gzw s else s)
      in if written (heap s1 (fst wrapped)) > - 1
         then on_Header (as_writer wrapped)
                (Header_Set ''Content-Length'' (Itoa (written (heap s1 (fst wrapped))))) s1
         else s1)"

text \<open>
  The deferred calls run in the reverse order of their \<^verbatim>\<open>defer\<close> statements, also when the
  handler panics: the byte-count function, \<^verbatim>\<open>gzPool.Put\<close>, \<^verbatim>\<open>gzw.Close\<close>.
\<close>

definition MiddlewareGZip :: Middleware where
  "MiddlewareGZip nxt = (\<lambda>rw r s.
     if \<not> Contains (Header_Get (r_header r) ''Accept-Encoding'') ''gzip'' then nxt rw r s
     else if Contains (ToLower (Header_Get (r_header r) ''Connection'')) ''upgrade'' then nxt rw r s
     else
       (case gzPool_Get s of
          (gzw, s1) \<Rightarrow>
            (let s2 = gzip_Reset False gzw s1;
                 gzrw = Gzipped rw gzw
             in case WrapResponseWriter gzrw s2 of
                  (Inl err, s3) \<Rightarrow>
                    (Returned, gzip_Close rw gzw (gzPool_Put gzw (http_Error rw err 500 s3)))
                | (Inr wrapped, s3) \<Rightarrow>
                    (let s4 = on_Header (as_writer wrapped) (Header_Set ''Content-Encoding'' ''gzip'') s3;
                         s5 = on_Header (as_writer wrapped) (Header_Add ''Vary'' ''Accept-Encoding'') s4;
                         etag = Header_Get (r_header r) ''ETag'';
                         s6 = (if etag \<noteq> '''' \<and> \<not> HasPrefix etag ''W/''
                               then on_Header (as_writer wrapped) (Header_Set ''ETag'' (''W/'' @ etag)) s5
                               else s5)
                     in case nxt (as_writer wrapped) r s6 of
                          (out, s7) \<Rightarrow>
                            (out, gzip_Close rw gzw
                                    (gzPool_Put gzw (gzip_deferred wrapped gzw s7)))))))"

text \<open>A handler that makes the given calls on its writer and returns.\<close>

definition handler_of :: "call list \<Rightarrow> Handler" where
  "handler_of cs = (\<lambda>rw req s. (Returned, snd (calls rw cs s)))"

subsection \<open>A concrete state for evaluation\<close>

text \<open>
  A server writer that takes every byte it is given; a library that prints JSON compactly
  and without escaping, quotes a string for \<^verbatim>\<open>%q\<close> by putting it between double quotes, and
  stands for the gzip header and for the compressed remainder by fixed short strings; and
  the state before a request: no header set, nothing written, nothing allocated, an empty
  pool.
\<close>

fun join :: "string \<Rightarrow> string list \<Rightarrow> string" where
  "join sep [] = ''''"
| "join sep [x] = x"
| "join sep (x # y # ys) = x @ sep @ join sep (y # ys)"

fun render :: "json \<Rightarrow> string" where
  "render JNull = ''null''"
| "render (JBool b) = (if b then ''true'' else ''false'')"
| "render (JNumber n) = Itoa n"
| "render (JString t) = CHR 0x22 # t @ [CHR 0x22]"
| "render (JArray js) = ''['' @ join '','' (map render js) @ '']''"
| "render (JObject fs) =
     ''{'' @ join '','' (map (\<lambda>f. CHR 0x22 # fst f @ [CHR 0x22] @ '':'' @ render (snd f)) fs) @ ''}''"

definition plain_library :: library where
  "plain_library =
     \<lparr>srv_Write = (\<lambda>c p. (int (length p), False)),
      json_Marshal = render,
      fmt_q = (\<lambda>k. CHR 0x22 # k @ [CHR 0x22]),
      gzip_header = ''GZ'',
      gzip_finish = (\<lambda>p. ''END''),
      error_headers = Header_Set ''Content-Type'' ''text/plain; charset=utf-8''\<rparr>"

definition start :: world where
  "start =
     \<lparr>lib = plain_library,
      srv = \<lparr>c_header = Map.empty, c_codes = [], c_body = '''', c_flushes = 0\<rparr>,
      heap = (\<lambda>a. \<lparr>status = 0, written = 0, user = ''''\<rparr>),
      fresh = 0,
      gzs = (\<lambda>g. new_gzip_Writer True),
      gz_fresh = 0,
      gzPool = [],
      logged = []\<rparr>"

definition get :: "header \<Rightarrow> request" where
  "get h = \<lparr>r_method = ''GET'', r_path = ''/'', r_header = h, r_request_id = None\<rparr>"

text \<open>A handler that panics at once, and the type \<^verbatim>\<open>string\<close> as an argument of \<^verbatim>\<open>Encode\<close>.\<close>

definition panics :: Handler where
  "panics = (\<lambda>rw req s. (Panicked, s))"

definition string_type :: "string gotype" where
  "string_type =
     \<lparr>zero_value = '''', dynamic_of = (\<lambda>v. Other), is_empty = (\<lambda>v. v = ''''),
      to_json = (\<lambda>v. Some (JString v))\<rparr>"

text \<open>
  A request from a client that accepts gzip, and the state after \<^verbatim>\<open>MiddlewareGZip\<close> has
  served it with a handler that makes no call on its writer.
\<close>

definition gzip_request :: request where
  "gzip_request = get (Map.empty(''Accept-Encoding'' \<mapsto> [''gzip'']))"

definition silent_reply :: world where
  "silent_reply = snd (MiddlewareGZip (handler_of []) (Server True) gzip_request start)"


section \<open>Properties\<close>

subsection \<open>ptr.From\<close>

text \<open>
  C10. For every value \<open>t\<close>, \<open>From\<close> returns nil when \<open>t\<close> equals the zero value of its type
  and otherwise a pointer whose pointee is \<open>t\<close>; hence a pointer that \<open>From\<close> returns never
  points to a value equal to the zero value.
\<close>

theorem From_zero_or_pointer:
  "(eq_T t zero_T \<longrightarrow> From eq_T zero_T t = None)
   \<and> (\<not> eq_T t zero_T \<longrightarrow> From eq_T zero_T t = Some t)
   \<and> (\<forall>v. From eq_T zero_T t = Some v \<longrightarrow> v = t \<and> \<not> eq_T v zero_T)"
  by (simp add: From_def)

theorem From_zero_or_pointer_witness:
  "From (=) (0 :: int) 0 = None \<and> From (=) (0 :: int) 7 = Some 7
   \<and> From (=) '''' ''x'' = Some ''x'' \<and> From (=) False False = None"
  using From_zero_or_pointer [of "(=)" "0 :: int" 0] From_zero_or_pointer [of "(=)" "7 :: int" 0]
    From_zero_or_pointer [of "(=)" "''x''" "''''"] From_zero_or_pointer [of "(=)" False False]
  by simp

subsection \<open>ServerConfig.Validate\<close>

text \<open>
  C6. Validate rejects a listener together with a non-empty host, a listener together
  with a nonzero port, and a missing listener with an empty host; it accepts a non-empty
  host with port zero and no listener.
\<close>

theorem Validate_cases:
  "(Listener cfg \<noteq> None \<and> Host cfg \<noteq> '''' \<longrightarrow> Validate (Some cfg) \<noteq> None)
   \<and> (Listener cfg \<noteq> None \<and> Port cfg \<noteq> 0 \<longrightarrow> Validate (Some cfg) \<noteq> None)
   \<and> (Listener cfg = None \<and> Host cfg = '''' \<longrightarrow> Validate (Some cfg) \<noteq> None)
   \<and> (Host cfg \<noteq> '''' \<and> Port cfg = 0 \<and> Listener cfg = None \<longrightarrow> Validate (Some cfg) = None)"
  by (simp add: Validate_def)

theorem Validate_cases_witness:
  "Validate (Some \<lparr>Listener = Some 0, Host = ''localhost'', Port = 8080\<rparr>) \<noteq> None
   \<and> Validate (Some \<lparr>Listener = Some 0, Host = '''', Port = 8080\<rparr>) \<noteq> None
   \<and> Validate (Some \<lparr>Listener = None, Host = '''', Port = 8080\<rparr>) \<noteq> None
   \<and> Validate (Some \<lparr>Listener = None, Host = ''localhost'', Port = 0\<rparr>) = None"
  using Validate_cases [of "\<lparr>Listener = Some 0, Host = ''localhost'', Port = 8080\<rparr>"]
    Validate_cases [of "\<lparr>Listener = Some 0, Host = '''', Port = 8080\<rparr>"]
    Validate_cases [of "\<lparr>Listener = None, Host = '''', Port = 8080\<rparr>"]
    Validate_cases [of "\<lparr>Listener = None, Host = ''localhost'', Port = 0\<rparr>"]
  by simp

subsection \<open>MiddlewareChain\<close>

lemma chain_loop_take:
  "n \<le> length mws \<Longrightarrow> chain_loop mws (int n - 1) h = nested (take n mws) h"
proof (induction n arbitrary: h)
  case 0
  show ?case by (subst chain_loop.simps) simp
next
  case (Suc n)
  have lt: "n < length mws" using Suc.prems by simp
  have step: "chain_loop mws (int (Suc n) - 1) h = chain_loop mws (int n - 1) ((mws ! n) h)"
    by (subst chain_loop.simps) simp
  have app: "nested (xs @ [m]) k = nested xs (m k)" for xs and m :: "'a \<Rightarrow> 'a" and k
    by (induction xs) simp_all
  show ?case
    using Suc.IH [of "(mws ! n) h"] lt step
    by (simp add: take_Suc_conv_app_nth app)
qed

lemma chain_around:
  "nested (map around as) core tr = tr @ map Enter as @ [Served] @ map Leave (rev as)"
  by (induction as arbitrary: tr) (simp_all add: around_def core_def)

lemma chain_is_nested: "MiddlewareChain mws h = nested mws h"
  using chain_loop_take [of "length mws" mws h] by (simp add: MiddlewareChain_def)

text \<open>
  C3. The chain of \<open>m1, ..., mn\<close> applied to \<open>h\<close> is \<open>m1 (m2 (... (mn h)))\<close>; effects before
  delegation happen in declaration order and effects after it in reverse order; the empty
  chain leaves the handler as it is.
\<close>

theorem MiddlewareChain_nested:
  "MiddlewareChain mws h = nested mws h
   \<and> MiddlewareChain (map around as) core [] = map Enter as @ [Served] @ map Leave (rev as)
   \<and> MiddlewareChain [] h = h"
  by (simp add: chain_is_nested chain_around)

subsection \<open>What a call on one writer leaves untouched\<close>

lemma int64_idem: "int64 (int64 x + y) = int64 (x + y)"
proof -
  have "(int64 x + y + 2 ^ 63) mod 2 ^ 64 = ((x + 2 ^ 63) mod 2 ^ 64 + y) mod (2 ^ 64 :: int)"
    by (simp add: int64_def)
  also have "\<dots> = (x + 2 ^ 63 + y) mod 2 ^ 64"
    by (rule mod_add_left_eq)
  finally show ?thesis
    by (simp add: int64_def add.assoc add.commute [of y])
qed

lemma int64_in_range: "- (2 ^ 63) \<le> x \<Longrightarrow> x < 2 ^ 63 \<Longrightarrow> int64 x = x"
  by (simp add: int64_def)

lemma Write_frame:
  "allocated b w \<Longrightarrow> b \<le> a \<Longrightarrow> heap (snd (Write w p s)) a = heap s a"
  by (induction w p s arbitrary: b rule: Write.induct)
     (auto simp: gz_upd_def split: prod.splits if_splits)

lemma WriteHeader_frame:
  "allocated b w \<Longrightarrow> b \<le> a \<Longrightarrow> heap (WriteHeader w c s) a = heap s a"
  by (induction w c s arbitrary: b rule: WriteHeader.induct) (auto simp: Let_def)

lemma on_Header_heap: "heap (on_Header w f s) = heap s"
  by (induction w f s rule: on_Header.induct) auto

lemma Flush_heap: "heap (Flush w s) = heap s"
  by (induction w s rule: Flush.induct) auto

lemma on_Header_logged: "logged (on_Header w f s) = logged s"
  by (induction w f s rule: on_Header.induct) auto

lemma WriteHeader_logged: "logged (WriteHeader w c s) = logged s"
  by (induction w c s rule: WriteHeader.induct) (auto simp: Let_def)

lemma Write_logged: "logged (snd (Write w p s)) = logged s"
  by (induction w p s rule: Write.induct)
     (auto simp: gz_upd_def split: prod.splits if_splits)

lemma http_Error_logged: "logged (http_Error w e c s) = logged s"
  by (simp add: http_Error_def Let_def Write_logged WriteHeader_logged on_Header_logged)

lemma on_Header_codes: "c_codes (srv (on_Header w f s)) = c_codes (srv s)"
  by (induction w f s rule: on_Header.induct) auto

lemma WriteHeader_codes: "c_codes (srv (WriteHeader w c s)) = c_codes (srv s) @ [c]"
  by (induction w c s rule: WriteHeader.induct) (auto simp: Let_def)

lemma Write_codes: "c_codes (srv (snd (Write w p s))) = c_codes (srv s)"
  by (induction w p s rule: Write.induct)
     (auto simp: gz_upd_def split: prod.splits if_splits)

lemma Wrap_cases:
  "WrapResponseWriter rw s =
     (if is_ResponseWriter rw then (Inr (case rw of Wrapped a w \<Rightarrow> (a, w)), s)
      else if implements_Flusher rw then
        (Inr (fresh s, rw),
         s\<lparr>heap := (heap s)(fresh s := \<lparr>status = 200, written = 0, user = ''''\<rparr>),
           fresh := Suc (fresh s)\<rparr>)
      else (Inl ''ResponseWriter does not implement http.Flusher'', s))"
  by (cases rw) simp_all

lemma Wrap_fails_unchanged: "WrapResponseWriter rw s = (Inl e, s1) \<Longrightarrow> s1 = s"
  by (cases rw) (auto split: if_splits)

subsection \<open>WrapResponseWriter\<close>

text \<open>
  C9. Wrapping a writer that is already a \<^verbatim>\<open>*ResponseWriter\<close> returns that pointer and leaves
  the state, and so its status, byte count and user, as they are; wrapping the result of a
  wrap returns it again. Any other writer is wrapped exactly when it can flush, into a
  new \<^verbatim>\<open>ResponseWriter\<close> with status 200, no bytes written and no user; when it cannot, the
  result is an error and the state is unchanged.
\<close>

theorem WrapResponseWriter_idempotent:
  "WrapResponseWriter (Wrapped a w) s = (Inr (a, w), s)
   \<and> (WrapResponseWriter rw s = (Inr p, s') \<longrightarrow> WrapResponseWriter (as_writer p) s' = (Inr p, s'))
   \<and> (\<not> is_ResponseWriter rw \<and> implements_Flusher rw \<longrightarrow>
        WrapResponseWriter rw s =
          (Inr (fresh s, rw),
           s\<lparr>heap := (heap s)(fresh s := \<lparr>status = 200, written = 0, user = ''''\<rparr>),
             fresh := Suc (fresh s)\<rparr>))
   \<and> (\<not> is_ResponseWriter rw \<and> \<not> implements_Flusher rw \<longrightarrow>
        WrapResponseWriter rw s = (Inl ''ResponseWriter does not implement http.Flusher'', s))"
  by (simp add: Wrap_cases as_writer_def)

theorem WrapResponseWriter_idempotent_witness:
  "WrapResponseWriter (Server True) start =
     (Inr (0, Server True),
      start\<lparr>heap := (heap start)(0 := \<lparr>status = 200, written = 0, user = ''''\<rparr>), fresh := Suc 0\<rparr>)
   \<and> WrapResponseWriter (Wrapped 0 (Server True))
       (start\<lparr>heap := (heap start)(0 := \<lparr>status = 200, written = 0, user = ''''\<rparr>), fresh := Suc 0\<rparr>) =
     (Inr (0, Server True),
      start\<lparr>heap := (heap start)(0 := \<lparr>status = 200, written = 0, user = ''''\<rparr>), fresh := Suc 0\<rparr>)
   \<and> WrapResponseWriter (Server False) start =
       (Inl ''ResponseWriter does not implement http.Flusher'', start)"
  using WrapResponseWriter_idempotent [of 0 "Server True" start "Server True" "(0, Server True)"
      "start\<lparr>heap := (heap start)(0 := \<lparr>status = 200, written = 0, user = ''''\<rparr>), fresh := Suc 0\<rparr>"]
    WrapResponseWriter_idempotent [of 0 "Server True" start "Server False"]
  by (simp add: start_def as_writer_def)

subsection \<open>The status and the byte count of a wrapper\<close>

lemma calls_wrapper:
  "allocated a w \<Longrightarrow> calls (Wrapped a w) cs s = (rs, s') \<Longrightarrow>
     status (heap s' a) = last (status (heap s a) # codes cs)
     \<and> written (heap s' a) =
         (if rs = [] then written (heap s a)
          else int64 (written (heap s a) + sum_list (map fst rs)))
     \<and> user (heap s' a) = user (heap s a)"
proof (induction cs arbitrary: s rs)
  case Nil
  then show ?case by simp
next
  case (Cons c cs)
  show ?case
  proof (cases c)
    case (CallSet k v)
    with Cons show ?thesis by (simp add: on_Header_heap)
  next
    case (CallWriteHeader x)
    with Cons.prems Cons.IH [of "WriteHeader (Wrapped a w) x s" rs] show ?thesis
      by (simp add: Let_def WriteHeader_frame)
  next
    case (CallWrite p)
    obtain n e s1 where w1: "Write w p s = ((n, e), s1)" by (metis prod.exhaust)
    let ?s2 = "s1\<lparr>heap := (heap s1)(a := (heap s1 a)\<lparr>written := int64 (written (heap s1 a) + n)\<rparr>)\<rparr>"
    obtain rs' where r: "calls (Wrapped a w) cs ?s2 = (rs', s')" "rs = (n, e) # rs'"
      using Cons.prems(2) CallWrite w1 by (auto split: prod.splits)
    have fr: "heap s1 a = heap s a"
      using Write_frame [OF Cons.prems(1), of a p s] w1 by simp
    from Cons.IH [OF Cons.prems(1) r(1)] fr r(2) show ?thesis
      using CallWrite int64_idem [of "written (heap s a) + n" "sum_list (map fst rs')"]
      by (simp add: add.assoc)
  next
    case CallFlush
    with Cons show ?thesis by (simp add: Flush_heap)
  qed
qed

text \<open>
  C1, as the code has it. After any sequence of calls on the wrapper that
  \<^verbatim>\<open>WrapResponseWriter\<close> returned, the recorded status is the code of the last \<^verbatim>\<open>WriteHeader\<close>
  call, or the status the wrapper had when no such call was made; that is 200 for a new
  wrapper. The byte count is the count it had plus the counts that the \<^verbatim>\<open>Write\<close> calls of
  the writer below returned, in the arithmetic of \<^verbatim>\<open>int\<close>; for a new wrapper, whose counts
  sum to a number that fits, it is that sum.
\<close>

theorem wrapper_records_last_status:
  "allocated (fresh s) rw \<and> WrapResponseWriter rw s = (Inr (a, w), s0)
     \<and> calls (Wrapped a w) cs s0 = (rs, s1) \<longrightarrow>
   status (heap s1 a) = last (status (heap s0 a) # codes cs)
   \<and> written (heap s1 a) =
       (if rs = [] then written (heap s0 a)
        else int64 (written (heap s0 a) + sum_list (map fst rs)))
   \<and> (\<not> is_ResponseWriter rw \<longrightarrow>
        status (heap s1 a) = last (200 # codes cs)
        \<and> written (heap s1 a) = int64 (sum_list (map fst rs)))
   \<and> (\<not> is_ResponseWriter rw \<and> 0 \<le> sum_list (map fst rs) \<and> sum_list (map fst rs) < 2 ^ 63 \<longrightarrow>
        written (heap s1 a) = sum_list (map fst rs))"
proof (intro impI)
  assume h: "allocated (fresh s) rw \<and> WrapResponseWriter rw s = (Inr (a, w), s0)
     \<and> calls (Wrapped a w) cs s0 = (rs, s1)"
  have al: "allocated a w"
    using h by (cases rw) (auto split: if_splits)
  have init: "\<not> is_ResponseWriter rw \<Longrightarrow> status (heap s0 a) = 200 \<and> written (heap s0 a) = 0"
    using h by (cases rw) (auto split: if_splits)
  have zero: "int64 0 = 0" by (simp add: int64_def)
  note main = calls_wrapper [OF al, of cs s0 rs s1]
  show "status (heap s1 a) = last (status (heap s0 a) # codes cs)
   \<and> written (heap s1 a) =
       (if rs = [] then written (heap s0 a)
        else int64 (written (heap s0 a) + sum_list (map fst rs)))
   \<and> (\<not> is_ResponseWriter rw \<longrightarrow>
        status (heap s1 a) = last (200 # codes cs)
        \<and> written (heap s1 a) = int64 (sum_list (map fst rs)))
   \<and> (\<not> is_ResponseWriter rw \<and> 0 \<le> sum_list (map fst rs) \<and> sum_list (map fst rs) < 2 ^ 63 \<longrightarrow>
        written (heap s1 a) = sum_list (map fst rs))"
    using main h init zero int64_in_range [of "sum_list (map fst rs)"]
    by (cases "rs = []") auto
qed

theorem wrapper_records_last_status_witness:
  "allocated (fresh start) (Server True)
   \<and> WrapResponseWriter (Server True) start =
       (Inr (0, Server True), snd (WrapResponseWriter (Server True) start))
   \<and> status (heap (snd (calls (Wrapped 0 (Server True))
         [CallWriteHeader 404, CallWrite ''ab'', CallWriteHeader 500, CallWrite ''cde'']
         (snd (WrapResponseWriter (Server True) start)))) 0) = 500
   \<and> written (heap (snd (calls (Wrapped 0 (Server True))
         [CallWriteHeader 404, CallWrite ''ab'', CallWriteHeader 500, CallWrite ''cde'']
         (snd (WrapResponseWriter (Server True) start)))) 0) = 5"
  using wrapper_records_last_status [of start "Server True" 0 "Server True"
      "snd (WrapResponseWriter (Server True) start)"
      "[CallWriteHeader 404, CallWrite ''ab'', CallWriteHeader 500, CallWrite ''cde'']"
      "fst (calls (Wrapped 0 (Server True))
         [CallWriteHeader 404, CallWrite ''ab'', CallWriteHeader 500, CallWrite ''cde'']
         (snd (WrapResponseWriter (Server True) start)))"
      "snd (calls (Wrapped 0 (Server True))
         [CallWriteHeader 404, CallWrite ''ab'', CallWriteHeader 500, CallWrite ''cde'']
         (snd (WrapResponseWriter (Server True) start)))"]
  by (simp add: start_def plain_library_def)

text \<open>
  The specification's reading, that the first status code is the one recorded, fails when
  \<^verbatim>\<open>WriteHeader\<close> is called with 404 and then with 500 on a new wrapper: the wrapper records
  500, while the server's writer was given both codes in order.
\<close>

theorem first_status_counterexample:
  "fst (WrapResponseWriter (Server True) start) = Inr (0, Server True)
   \<and> status (heap (snd (calls (Wrapped 0 (Server True)) [CallWriteHeader 404, CallWriteHeader 500]
        (snd (WrapResponseWriter (Server True) start)))) 0) = 500
   \<and> status (heap (snd (calls (Wrapped 0 (Server True)) [CallWriteHeader 404, CallWriteHeader 500]
        (snd (WrapResponseWriter (Server True) start)))) 0) \<noteq> 404
   \<and> c_codes (srv (snd (calls (Wrapped 0 (Server True)) [CallWriteHeader 404, CallWriteHeader 500]
        (snd (WrapResponseWriter (Server True) start))))) = [404, 500]"
  by (simp add: start_def)


subsection \<open>Access logging\<close>

text \<open>
  C4, as the code has it. When the writer can be wrapped and the inner handler returns,
  the middleware appends exactly one record to the log after the handler is done; its
  level is \<open>logLevel\<close> of the status recorded in the wrapper, which is info for a status in
  200 to 399, warn in 400 to 499 and error from 500 on. When the writer cannot be wrapped
  the middleware answers through \<^verbatim>\<open>http.Error\<close> with status 500, does not call the handler
  and logs nothing; when the handler panics the panic passes through and nothing is
  logged.
\<close>

theorem MiddlewareLogging_one_record:
  "(WrapResponseWriter rw s = (Inr p, s1) \<and> nxt (as_writer p) req s1 = (Returned, s2) \<longrightarrow>
      MiddlewareLogging nxt rw req s =
        (Returned, s2\<lparr>logged := logged s2 @ [served req (heap s2 (fst p))]\<rparr>)
      \<and> level (served req (heap s2 (fst p))) = logLevel (status (heap s2 (fst p))))
   \<and> (200 \<le> st \<and> st < 400 \<longrightarrow> logLevel st = LevelInfo)
   \<and> (400 \<le> st \<and> st < 500 \<longrightarrow> logLevel st = LevelWarn)
   \<and> (500 \<le> st \<longrightarrow> logLevel st = LevelError)
   \<and> (WrapResponseWriter rw s = (Inl e, s1) \<longrightarrow>
        MiddlewareLogging nxt rw req s = (Returned, http_Error rw e 500 s)
        \<and> logged (http_Error rw e 500 s) = logged s)
   \<and> (WrapResponseWriter rw s = (Inr p, s1) \<and> nxt (as_writer p) req s1 = (Panicked, s2) \<longrightarrow>
        MiddlewareLogging nxt rw req s = (Panicked, s2))"
  using Wrap_fails_unchanged [of rw s e s1]
  by (auto simp: MiddlewareLogging_def served_def logLevel_def http_Error_logged)

theorem MiddlewareLogging_one_record_witness:
  "logged (snd (MiddlewareLogging (handler_of [CallWriteHeader 404, CallWrite ''gone''])
      (Server True) (get Map.empty) start)) =
     [\<lparr>level = LevelWarn, msg = ''Served'',
       attrs = [(''method'', AString ''GET''), (''path'', AString ''/''), (''status'', AInt 404),
                (''size'', AInt 4), (''user'', AString '''')]\<rparr>]
   \<and> logLevel 204 = LevelInfo \<and> logLevel 302 = LevelInfo
   \<and> logLevel 404 = LevelWarn \<and> logLevel 503 = LevelError
   \<and> MiddlewareLogging (handler_of []) (Server False) (get Map.empty) start =
       (Returned, http_Error (Server False) ''ResponseWriter does not implement http.Flusher'' 500 start)
   \<and> fst (MiddlewareLogging panics (Server True) (get Map.empty) start) = Panicked"
  using MiddlewareLogging_one_record [of "Server True" start "(0, Server True)"
      "snd (WrapResponseWriter (Server True) start)"
      "handler_of [CallWriteHeader 404, CallWrite ''gone'']" "get Map.empty"
      "snd (handler_of [CallWriteHeader 404, CallWrite ''gone''] (Wrapped 0 (Server True))
         (get Map.empty) (snd (WrapResponseWriter (Server True) start)))" 204]
    MiddlewareLogging_one_record [of "Server False" start _ start "handler_of []" "get Map.empty"
      _ 302 "''ResponseWriter does not implement http.Flusher''"]
    MiddlewareLogging_one_record [of "Server True" start "(0, Server True)"
      "snd (WrapResponseWriter (Server True) start)" panics "get Map.empty"
      "snd (WrapResponseWriter (Server True) start)" 404]
    MiddlewareLogging_one_record [of _ _ _ _ _ _ _ 503]
  by (simp add: start_def plain_library_def handler_of_def get_def as_writer_def served_def
      panics_def int64_def)

text \<open>
  The specification's reading, one record for every request, fails for a writer without a
  \<^verbatim>\<open>Flush\<close> method and for a handler that panics: the log stays empty.
\<close>

theorem every_request_logged_counterexample:
  "logged (snd (MiddlewareLogging (handler_of [CallWriteHeader 404]) (Server False)
      (get Map.empty) start)) = []
   \<and> c_codes (srv (snd (MiddlewareLogging (handler_of [CallWriteHeader 404]) (Server False)
      (get Map.empty) start))) = [500]
   \<and> logged (snd (MiddlewareLogging panics (Server True) (get Map.empty) start)) = []"
  by (simp add: MiddlewareLogging_def http_Error_def start_def plain_library_def panics_def
      Header_Set_def as_writer_def)


subsection \<open>Encode and the response envelope\<close>

lemma Encode_codes: "c_codes (srv (Encode T rw st v s)) = c_codes (srv s) @ [st]"
proof -
  let ?s2 = "WriteHeader rw st (on_Header rw (Header_Set ''Content-Type'' ''application/json'') s)"
  have c2: "c_codes (srv ?s2) = c_codes (srv s) @ [st]"
    by (simp add: WriteHeader_codes on_Header_codes)
  have w: "c_codes (srv (snd (Write rw p ?s2))) = c_codes (srv s) @ [st]" for p
    by (simp add: Write_codes c2)
  show ?thesis
  proof (cases "Response_json T (Encode_resp T v)")
    case None
    then show ?thesis using c2 by (simp add: Encode_def Let_def log_encode_failure_def)
  next
    case (Some j)
    obtain n e s3 where r: "Write rw (json_Marshal (lib ?s2) j @ [CHR 0x0A]) ?s2 = ((n, e), s3)"
      by (metis prod.exhaust)
    from w [of "json_Marshal (lib ?s2) j @ [CHR 0x0A]"] r
    have "c_codes (srv s3) = c_codes (srv s) @ [st]" by simp
    with Some r show ?thesis by (simp add: Encode_def Let_def log_encode_failure_def)
  qed
qed

lemma EncodeErr_envelope:
  "Response_json ErrResponse_ptr (Encode_resp ErrResponse_ptr (Some \<lparr>Message = m\<rparr>)) =
     Some (JObject [(''error'', JObject [(''message'', JString m)])])"
  by (simp add: Response_json_def Encode_resp_def ErrResponse_ptr_def ErrResponse_json_def)

lemma on_Header_lib: "lib (on_Header w f s) = lib s"
  by (induction w f s rule: on_Header.induct) auto

lemma WriteHeader_lib: "lib (WriteHeader w c s) = lib s"
  by (induction w c s rule: WriteHeader.induct) (auto simp: Let_def)

text \<open>
  C8, as the code has it. An \<^verbatim>\<open>*ErrResponse\<close> goes to the error field of the envelope, any
  other error value goes there as an \<^verbatim>\<open>ErrResponse\<close> with the error's message, and every
  other value goes to the data field. The JSON object of an envelope has the field
  \<^verbatim>\<open>data\<close> exactly when the data value is not empty and the field \<^verbatim>\<open>error\<close> exactly when the
  error pointer is not nil, in this order and no other field; the error object has the one
  field \<^verbatim>\<open>message\<close>. \<^verbatim>\<open>Encode\<close> sets the content type, sends the status code and writes the
  text of that object and a newline to the writer in one \<^verbatim>\<open>Write\<close>, and logs a failure when
  the write fails.
\<close>

theorem Encode_envelope:
  "(dynamic_of T v = ErrResponsePtr val \<longrightarrow>
      Encode_resp T v = \<lparr>Data = zero_value T, Error = val\<rparr>)
   \<and> (dynamic_of T v = ErrorValue m \<longrightarrow>
      Encode_resp T v = \<lparr>Data = zero_value T, Error = Some \<lparr>Message = m\<rparr>\<rparr>)
   \<and> (dynamic_of T v = Other \<longrightarrow> Encode_resp T v = \<lparr>Data = v, Error = None\<rparr>)
   \<and> (Response_json T r = Some j \<longrightarrow>
        (\<exists>fs. j = JObject fs
           \<and> map fst fs = (if is_empty T (Data r) then [] else [''data''])
                           @ (if Error r = None then [] else [''error''])
           \<and> (\<forall>e. Error r = Some e \<longrightarrow>
                 map_of fs ''error'' = Some (JObject [(''message'', JString (Message e))]))
           \<and> (\<not> is_empty T (Data r) \<longrightarrow> map_of fs ''data'' = to_json T (Data r))))
   \<and> (Response_json T (Encode_resp T v) = Some j'
        \<and> Write rw (json_Marshal (lib s) j' @ [CHR 0x0A])
             (WriteHeader rw st (on_Header rw (Header_Set ''Content-Type'' ''application/json'') s)) =
           ((n, err), s3) \<longrightarrow>
        Encode T rw st v s = (if err then log_encode_failure s3 else s3))"
  by (auto simp: Encode_resp_def Response_json_def ErrResponse_json_def Encode_def Let_def
      WriteHeader_lib on_Header_lib split: option.splits if_splits)

theorem Encode_envelope_witness:
  "Encode_resp ErrResponse_ptr (Some \<lparr>Message = ''no''\<rparr>) =
     \<lparr>Data = None, Error = Some \<lparr>Message = ''no''\<rparr>\<rparr>
   \<and> Encode_resp
        \<lparr>zero_value = '''', dynamic_of = ErrorValue, is_empty = (\<lambda>v. v = ''''),
         to_json = (\<lambda>v. Some (JString v))\<rparr> ''boom'' =
      \<lparr>Data = '''', Error = Some \<lparr>Message = ''boom''\<rparr>\<rparr>
   \<and> Encode_resp string_type ''ok'' = \<lparr>Data = ''ok'', Error = None\<rparr>
   \<and> Response_json string_type \<lparr>Data = ''ok'', Error = Some \<lparr>Message = ''no''\<rparr>\<rparr> =
        Some (JObject [(''data'', JString ''ok''), (''error'', JObject [(''message'', JString ''no'')])])
   \<and> Response_json string_type (Encode_resp string_type ''ok'') = Some (JObject [(''data'', JString ''ok'')])
   \<and> Encode string_type (Server True) 200 ''ok'' start =
       snd (Write (Server True) (json_Marshal (lib start) (JObject [(''data'', JString ''ok'')]) @ [CHR 0x0A])
         (WriteHeader (Server True) 200
            (on_Header (Server True) (Header_Set ''Content-Type'' ''application/json'') start)))"
  using Encode_envelope [where T = ErrResponse_ptr and v = "Some \<lparr>Message = ''no''\<rparr>"
      and val = "Some \<lparr>Message = ''no''\<rparr>"]
    Encode_envelope [where T = "\<lparr>zero_value = '''', dynamic_of = ErrorValue,
         is_empty = (\<lambda>v. v = ''''), to_json = (\<lambda>v. Some (JString v))\<rparr>"
      and v = "''boom''" and m = "''boom''"]
    Encode_envelope [where T = string_type and v = "''ok''"
      and r = "\<lparr>Data = ''ok'', Error = Some \<lparr>Message = ''no''\<rparr>\<rparr>"
      and j = "JObject [(''data'', JString ''ok''), (''error'', JObject [(''message'', JString ''no'')])]"
      and j' = "JObject [(''data'', JString ''ok'')]" and rw = "Server True" and st = 200
      and s = start and err = False
      and n = "fst (fst (Write (Server True) (json_Marshal (lib start) (JObject [(''data'', JString ''ok'')]) @ [CHR 0x0A])
         (WriteHeader (Server True) 200
            (on_Header (Server True) (Header_Set ''Content-Type'' ''application/json'') start))))"
      and ?s3.0 = "snd (Write (Server True) (json_Marshal (lib start) (JObject [(''data'', JString ''ok'')]) @ [CHR 0x0A])
         (WriteHeader (Server True) 200
            (on_Header (Server True) (Header_Set ''Content-Type'' ''application/json'') start)))"]
  by (simp add: ErrResponse_ptr_def string_type_def Response_json_def ErrResponse_json_def
      Encode_resp_def start_def plain_library_def)

text \<open>
  The specification's reading, exactly the two fields in all cases, fails for the string \<open>ok\<close>,
  whose envelope has the field \<^verbatim>\<open>data\<close> only, for an error response, whose envelope has the
  field \<^verbatim>\<open>error\<close> only, and for the empty string, whose envelope has no field.
\<close>

theorem envelope_fields_counterexample:
  "Response_json string_type (Encode_resp string_type ''ok'') =
     Some (JObject [(''data'', JString ''ok'')])
   \<and> Response_json ErrResponse_ptr (Encode_resp ErrResponse_ptr (Some \<lparr>Message = ''no''\<rparr>)) =
     Some (JObject [(''error'', JObject [(''message'', JString ''no'')])])
   \<and> Response_json string_type (Encode_resp string_type '''') = Some (JObject [])
   \<and> c_body (srv (Encode string_type (Server True) 200 ''ok'' start)) =
       [CHR 0x7B, CHR 0x22] @ ''data'' @ [CHR 0x22] @ '':'' @ [CHR 0x22] @ ''ok'' @ [CHR 0x22, CHR 0x7D, CHR 0x0A]"
  by (simp add: Response_json_def Encode_resp_def string_type_def ErrResponse_ptr_def
      ErrResponse_json_def Encode_def start_def plain_library_def Header_Set_def)

subsection \<open>Authentication\<close>

text \<open>
  C5, as the code has it. When the \<^verbatim>\<open>X-API-Key\<close> header is absent or empty, the request is
  answered by \<^verbatim>\<open>EncodeErr\<close> with status 401 and a message that names the header; when it
  carries a non-empty key that the table lacks, with status 401 and a message that holds
  the quoted key. In both cases the result does not depend on the inner handler. When
  the non-empty key is in the table and the writer can be wrapped, the inner handler runs
  on the wrapper, in a state where the wrapper's user is the identity of the key; when
  the writer cannot be wrapped, the request is answered by \<^verbatim>\<open>http.Error\<close> with status 500,
  again whatever the inner handler is. \<^verbatim>\<open>EncodeErr\<close> sends the status code it is given and
  the envelope whose error field carries the message.
\<close>

theorem authenticate_cases:
  "(Header_Get (r_header req) ApiKeyHeader = '''' \<longrightarrow>
      authenticate lookup nxt rw req s =
        (Returned, EncodeErr rw 401 ''please set the X-API-Key header'' s))
   \<and> (Header_Get (r_header req) ApiKeyHeader \<noteq> ''''
        \<and> lookup (Header_Get (r_header req) ApiKeyHeader) = None \<longrightarrow>
      authenticate lookup nxt rw req s =
        (Returned, EncodeErr rw 401
           (''unrecognized API key '' @ fmt_q (lib s) (Header_Get (r_header req) ApiKeyHeader)) s))
   \<and> (Header_Get (r_header req) ApiKeyHeader \<noteq> ''''
        \<and> lookup (Header_Get (r_header req) ApiKeyHeader) = Some usr
        \<and> WrapResponseWriter rw s = (Inr p, s1) \<longrightarrow>
      authenticate lookup nxt rw req s =
        nxt (as_writer p) req (s1\<lparr>heap := (heap s1)(fst p := (heap s1 (fst p))\<lparr>user := usr\<rparr>)\<rparr>)
      \<and> user (heap (s1\<lparr>heap := (heap s1)(fst p := (heap s1 (fst p))\<lparr>user := usr\<rparr>)\<rparr>) (fst p)) = usr)
   \<and> (Header_Get (r_header req) ApiKeyHeader \<noteq> ''''
        \<and> lookup (Header_Get (r_header req) ApiKeyHeader) = Some usr
        \<and> WrapResponseWriter rw s = (Inl e, s1) \<longrightarrow>
      authenticate lookup nxt rw req s = (Returned, http_Error rw e 500 s))
   \<and> c_codes (srv (EncodeErr rw 401 m s)) = c_codes (srv s) @ [401]
   \<and> Response_json ErrResponse_ptr (Encode_resp ErrResponse_ptr (Some \<lparr>Message = m\<rparr>)) =
       Some (JObject [(''error'', JObject [(''message'', JString m)])])"
  using Wrap_fails_unchanged [of rw s e s1]
  by (auto simp: authenticate_def ApiKeyHeader_def Let_def EncodeErr_def Encode_codes
      EncodeErr_envelope)


theorem authenticate_cases_witness:
  "authenticate (Map.empty(''k1'' \<mapsto> ''alice'')) (handler_of [CallWrite ''hi'']) (Server True)
      (get Map.empty) start =
     (Returned, EncodeErr (Server True) 401 ''please set the X-API-Key header'' start)
   \<and> authenticate (Map.empty(''k1'' \<mapsto> ''alice'')) (handler_of [CallWrite ''hi'']) (Server True)
      (get (Map.empty(''X-API-Key'' \<mapsto> [''k2'']))) start =
     (Returned, EncodeErr (Server True) 401 (''unrecognized API key '' @ [CHR 0x22] @ ''k2'' @ [CHR 0x22]) start)
   \<and> user (heap (snd (authenticate (Map.empty(''k1'' \<mapsto> ''alice'')) (handler_of [CallWrite ''hi''])
        (Server True) (get (Map.empty(''X-API-Key'' \<mapsto> [''k1'']))) start)) 0) = ''alice''
   \<and> c_body (srv (snd (authenticate (Map.empty(''k1'' \<mapsto> ''alice'')) (handler_of [CallWrite ''hi''])
        (Server True) (get (Map.empty(''X-API-Key'' \<mapsto> [''k1'']))) start))) = ''hi''
   \<and> authenticate (Map.empty(''k1'' \<mapsto> ''alice'')) (handler_of [CallWrite ''hi'']) (Server False)
      (get (Map.empty(''X-API-Key'' \<mapsto> [''k1'']))) start =
     (Returned, http_Error (Server False) ''ResponseWriter does not implement http.Flusher'' 500 start)
   \<and> c_codes (srv (EncodeErr (Server True) 401 ''please set the X-API-Key header'' start)) = [401]"
  using authenticate_cases [where req = "get Map.empty" and lookup = "Map.empty(''k1'' \<mapsto> ''alice'')"
      and nxt = "handler_of [CallWrite ''hi'']" and rw = "Server True" and s = start
      and m = "''please set the X-API-Key header''"]
    authenticate_cases [where req = "get (Map.empty(''X-API-Key'' \<mapsto> [''k2'']))"
      and lookup = "Map.empty(''k1'' \<mapsto> ''alice'')"
      and nxt = "handler_of [CallWrite ''hi'']" and rw = "Server True" and s = start]
    authenticate_cases [where req = "get (Map.empty(''X-API-Key'' \<mapsto> [''k1'']))"
      and lookup = "Map.empty(''k1'' \<mapsto> ''alice'')" and usr = "''alice''"
      and nxt = "handler_of [CallWrite ''hi'']" and rw = "Server True" and s = start
      and p = "(0, Server True)" and ?s1.0 = "snd (WrapResponseWriter (Server True) start)"]
    authenticate_cases [where req = "get (Map.empty(''X-API-Key'' \<mapsto> [''k1'']))"
      and lookup = "Map.empty(''k1'' \<mapsto> ''alice'')" and usr = "''alice''"
      and nxt = "handler_of [CallWrite ''hi'']" and rw = "Server False" and s = start
      and e = "''ResponseWriter does not implement http.Flusher''" and ?s1.0 = start]
  by (simp add: start_def plain_library_def get_def Header_Get_def ApiKeyHeader_def
      handler_of_def as_writer_def int64_def)

text \<open>
  The specification's reading fails where a key of the table is sent to a writer without a \<^verbatim>\<open>Flush\<close>
  method (the answer is status 500 and the handler, which would write \<open>hi\<close>, does not run),
  and where the empty string is a key of the table and the header carries it (the answer
  is status 401 with the message that names the header).
\<close>

theorem authenticate_counterexample:
  "c_codes (srv (snd (authenticate (Map.empty(''k1'' \<mapsto> ''alice'')) (handler_of [CallWrite ''hi''])
      (Server False) (get (Map.empty(''X-API-Key'' \<mapsto> [''k1'']))) start))) = [500]
   \<and> c_body (srv (snd (authenticate (Map.empty(''k1'' \<mapsto> ''alice'')) (handler_of [CallWrite ''hi''])
      (Server False) (get (Map.empty(''X-API-Key'' \<mapsto> [''k1'']))) start))) =
       ''ResponseWriter does not implement http.Flusher'' @ [CHR 0x0A]
   \<and> authenticate (Map.empty('''' \<mapsto> ''alice'')) (handler_of [CallWrite ''hi''])
      (Server True) (get (Map.empty(''X-API-Key'' \<mapsto> ['''']))) start =
     (Returned, EncodeErr (Server True) 401 ''please set the X-API-Key header'' start)
   \<and> c_codes (srv (EncodeErr (Server True) 401 ''please set the X-API-Key header'' start)) = [401]"
  by (simp add: authenticate_def http_Error_def start_def plain_library_def get_def
      Header_Get_def Header_Set_def ApiKeyHeader_def EncodeErr_def Encode_codes)

subsection \<open>The lookup table of the authentication middleware\<close>

lemma lookup_loop_total:
  "length keys \<le> length users \<Longrightarrow> \<exists>R. lookup_loop keys users i m = Some R"
proof (induction keys users i m rule: lookup_loop.induct)
  case (1 keys users i lookup)
  show ?case
  proof (cases "i < length keys")
    case True
    then have "i < length users" using "1.prems" by simp
    with True "1.IH" "1.prems" show ?thesis
      by (subst lookup_loop.simps) (simp add: fun_upd_def)
  next
    case False
    then show ?thesis by (subst lookup_loop.simps) simp
  qed
qed

lemma lookup_loop_other:
  "lookup_loop keys users i m = Some R \<Longrightarrow> k \<notin> set (drop i keys) \<Longrightarrow> R k = m k"
proof (induction keys users i m rule: lookup_loop.induct)
  case (1 keys users i lookup)
  show ?case
  proof (cases "i < length keys")
    case True
    have lu: "i < length users"
      using "1.prems"(1) True by (subst (asm) lookup_loop.simps) (simp split: if_splits)
    have rec: "lookup_loop keys users (Suc i) (lookup(keys ! i \<mapsto> users ! i)) = Some R"
      using "1.prems"(1) True lu by (subst (asm) lookup_loop.simps) simp
    have d: "drop i keys = keys ! i # drop (Suc i) keys"
      using True by (simp add: Cons_nth_drop_Suc)
    have "R k = (lookup(keys ! i \<mapsto> users ! i)) k"
      using "1.IH" [OF True lu rec] "1.prems"(2) d by simp
    then show ?thesis using "1.prems"(2) d by simp
  next
    case False
    then show ?thesis using "1.prems"(1) by (subst (asm) lookup_loop.simps) simp
  qed
qed

lemma lookup_loop_last:
  "lookup_loop keys users i m = Some R \<Longrightarrow> i \<le> j \<Longrightarrow> j < length keys \<Longrightarrow>
   keys ! j \<notin> set (drop (Suc j) keys) \<Longrightarrow> R (keys ! j) = Some (users ! j)"
proof (induction keys users i m rule: lookup_loop.induct)
  case (1 keys users i lookup)
  have True: "i < length keys" using "1.prems" by simp
  have lu: "i < length users"
    using "1.prems"(1) True by (subst (asm) lookup_loop.simps) (simp split: if_splits)
  have rec: "lookup_loop keys users (Suc i) (lookup(keys ! i \<mapsto> users ! i)) = Some R"
    using "1.prems"(1) True lu by (subst (asm) lookup_loop.simps) simp
  show ?case
  proof (cases "i = j")
    case True
    then show ?thesis
      using lookup_loop_other [OF rec, of "keys ! j"] "1.prems"(4) by simp
  next
    case False
    then have "Suc i \<le> j" using "1.prems"(2) by simp
    from "1.IH" [OF True lu rec this "1.prems"(3) "1.prems"(4)] show ?thesis .
  qed
qed

lemma last_occurrence:
  assumes "k \<in> set keys"
  shows "\<exists>i. i < length keys \<and> keys ! i = k \<and> keys ! i \<notin> set (drop (Suc i) keys)"
proof -
  let ?S = "{i. i < length keys \<and> keys ! i = k}"
  have fin: "finite ?S" by simp
  have ne: "?S \<noteq> {}" using assms by (auto simp: in_set_conv_nth)
  have mx: "Max ?S \<in> ?S" using Max_in [OF fin ne] .
  have "keys ! Max ?S \<notin> set (drop (Suc (Max ?S)) keys)"
  proof
    assume "keys ! Max ?S \<in> set (drop (Suc (Max ?S)) keys)"
    then obtain n where n: "n < length keys - Suc (Max ?S)"
        "drop (Suc (Max ?S)) keys ! n = keys ! Max ?S"
      by (auto simp: in_set_conv_nth)
    then have "Suc (Max ?S) + n \<in> ?S" using mx by simp
    then have "Suc (Max ?S) + n \<le> Max ?S" using Max_ge [OF fin] by blast
    then show False by simp
  qed
  with mx show ?thesis by blast
qed

text \<open>
  C7. For lists of equal length the loop ends without a panic, so the middleware is
  built, around one table. The keys of the table are the keys of the list, and a key maps
  to the identity at its last occurrence in the list, that is at the index after which
  the key does not occur again. The table is a value that the handler closes over: the
  state that a request changes does not hold it.
\<close>

theorem lookup_last_write_wins:
  "length keys = length users \<longrightarrow>
     (\<exists>lookup. lookup_loop keys users 0 Map.empty = Some lookup
        \<and> MiddlewareAuthentication keys users = Some (authenticate lookup)
        \<and> dom lookup = set keys
        \<and> (\<forall>i. i < length keys \<and> keys ! i \<notin> set (drop (Suc i) keys) \<longrightarrow>
              lookup (keys ! i) = Some (users ! i)))"
proof
  assume len: "length keys = length users"
  then obtain R where R: "lookup_loop keys users 0 Map.empty = Some R"
    using lookup_loop_total [of keys users 0 Map.empty] by auto
  have out: "k \<notin> set keys \<Longrightarrow> R k = None" for k
    using lookup_loop_other [OF R, of k] by simp
  have last: "i < length keys \<Longrightarrow> keys ! i \<notin> set (drop (Suc i) keys) \<Longrightarrow>
      R (keys ! i) = Some (users ! i)" for i
    using lookup_loop_last [OF R, of i] by simp
  have inn: "R k \<noteq> None" if k: "k \<in> set keys" for k
    using last_occurrence [OF k] last by auto
  have "k \<in> dom R \<longleftrightarrow> k \<in> set keys" for k
    using out [of k] inn [of k] by (cases "k \<in> set keys") (auto simp: dom_def)
  then have "dom R = set keys" by blast
  with R last show "\<exists>lookup. lookup_loop keys users 0 Map.empty = Some lookup
        \<and> MiddlewareAuthentication keys users = Some (authenticate lookup)
        \<and> dom lookup = set keys
        \<and> (\<forall>i. i < length keys \<and> keys ! i \<notin> set (drop (Suc i) keys) \<longrightarrow>
              lookup (keys ! i) = Some (users ! i))"
    by (auto simp: MiddlewareAuthentication_def)
qed

theorem lookup_last_write_wins_witness:
  "length [''a'', ''b'', ''a''] = length [''u1'', ''u2'', ''u3'']
   \<and> (\<exists>lookup. lookup_loop [''a'', ''b'', ''a''] [''u1'', ''u2'', ''u3''] 0 Map.empty = Some lookup
         \<and> dom lookup = {''a'', ''b''}
         \<and> lookup ''a'' = Some ''u3'' \<and> lookup ''b'' = Some ''u2'')"
proof -
  let ?keys = "[''a'', ''b'', ''a'']" and ?users = "[''u1'', ''u2'', ''u3'']"
  from lookup_last_write_wins [of ?keys ?users]
  obtain lookup where l: "lookup_loop ?keys ?users 0 Map.empty = Some lookup"
      "dom lookup = set ?keys"
      "\<forall>i. i < length ?keys \<and> ?keys ! i \<notin> set (drop (Suc i) ?keys) \<longrightarrow>
          lookup (?keys ! i) = Some (?users ! i)"
    by auto
  from l(3) have "2 < length ?keys \<and> ?keys ! 2 \<notin> set (drop (Suc 2) ?keys) \<longrightarrow>
      lookup (?keys ! 2) = Some (?users ! 2)"
    by (rule spec)
  then have a: "lookup ''a'' = Some ''u3''" by simp
  from l(3) have "1 < length ?keys \<and> ?keys ! 1 \<notin> set (drop (Suc 1) ?keys) \<longrightarrow>
      lookup (?keys ! 1) = Some (?users ! 1)"
    by (rule spec)
  then have b: "lookup ''b'' = Some ''u2''" by simp
  from a b show ?thesis using l(1, 2) by auto
qed


subsection \<open>Compression\<close>

lemma Itoa_0: "Itoa 0 = ''0''"
  by code_simp


text \<open>
  The deferred function resets the compressor only for a negative byte count. A count
  that is not negative, zero included, leaves the compressor pointed at the response and
  sets \<^verbatim>\<open>Content-Length\<close>.
\<close>

lemma gzip_deferred_nonnegative:
  "0 \<le> written (heap s (fst p)) \<Longrightarrow>
     gzip_deferred p g s =
       on_Header (as_writer p) (Header_Set ''Content-Length'' (Itoa (written (heap s (fst p))))) s"
  by (simp add: gzip_deferred_def Let_def)

lemmas gzip_run =
  gzip_request_def MiddlewareGZip_def handler_of_def start_def plain_library_def get_def
  Header_Get_def Header_Set_def Header_Add_def gzPool_Get_def gzPool_Put_def gzip_Reset_def
  gzip_Close_def gzip_deferred_def target_Write_def gz_upd_def new_gzip_Writer_def as_writer_def
  ToLower_def Let_def



text \<open>
  C2, at a request from a gzip-accepting client whose handler writes nothing. The byte
  count of the wrapper is 0, the compressor is not reset to the null sink, its
  \<^verbatim>\<open>Close\<close> writes the gzip header and footer to the response, and \<^verbatim>\<open>Content-Length\<close> is set
  to 0.
\<close>

theorem MiddlewareGZip_nothing_written:
  "written (heap silent_reply 0) = 0
   \<and> gz_discard (gzs silent_reply 0) = False
   \<and> c_header (srv silent_reply) ''Content-Length'' = Some [''0'']
   \<and> c_header (srv silent_reply) ''Content-Encoding'' = Some [''gzip'']
   \<and> c_body (srv silent_reply) = ''GZEND''"
  by (simp add: silent_reply_def gzip_run Itoa_0)


end
